theory Spec2Isabelle
  imports Complex_Main "HOL-Library.Multiset"
begin

section \<open>Python values and built-ins used by the scorer\<close>

text \<open>
  The scorer \<^verbatim>\<open>generate_compliance_report\<close> of \<^verbatim>\<open>app.py\<close> reads assessment
  records that were loaded from JSON. A field that the code inspects dynamically
  (\<^verbatim>\<open>isinstance\<close>, truthiness, \<^verbatim>\<open>float(...)\<close>) is a \<open>pyval\<close>. Python floats are
  modelled as exact rationals: every constant the scorer adds or compares with
  (0.5, 0.25, 1.5, 2.5, 50, 75) is exactly representable, non-finite floats and
  integers beyond the float range are outside the model.
\<close>

datatype pyval =
    PNone
  | PBool bool
  | PInt int
  | PFloat rat
  | PStr string
  | POther bool  \<comment> \<open>a list or dict; the flag tells whether it is non-empty\<close>

fun truthy :: "pyval \<Rightarrow> bool" where
  "truthy PNone = False"
| "truthy (PBool b) = b"
| "truthy (PInt n) = (n \<noteq> 0)"
| "truthy (PFloat q) = (q \<noteq> 0)"
| "truthy (PStr s) = (s \<noteq> [])"
| "truthy (POther b) = b"

text \<open>\<^verbatim>\<open>int(x)\<close> on a float truncates toward zero.\<close>

definition py_trunc :: "rat \<Rightarrow> int" where
  "py_trunc q = (if 0 \<le> q then \<lfloor>q\<rfloor> else \<lceil>q\<rceil>)"

text \<open>
  \<^verbatim>\<open>float(x)\<close>: \<open>None\<close> stands for the \<^verbatim>\<open>ValueError\<close> or \<^verbatim>\<open>TypeError\<close> that the
  scorer catches. Parsing a string is Python's own; it is the parameter \<open>sf\<close>.
\<close>

fun py_float :: "(string \<Rightarrow> rat option) \<Rightarrow> pyval \<Rightarrow> rat option" where
  "py_float sf PNone = None"
| "py_float sf (PBool b) = Some (if b then 1 else 0)"
| "py_float sf (PInt n) = Some (of_int n)"
| "py_float sf (PFloat q) = Some q"
| "py_float sf (PStr s) = sf s"
| "py_float sf (POther b) = None"

text \<open>\<^verbatim>\<open>v == n\<close> for an integer \<open>n\<close>; \<open>None\<close> on the left is an absent key.\<close>

fun py_eq_int :: "pyval option \<Rightarrow> int \<Rightarrow> bool" where
  "py_eq_int (Some (PInt m)) n = (m = n)"
| "py_eq_int (Some (PFloat q)) n = (q = of_int n)"
| "py_eq_int (Some (PBool b)) n = ((if b then 1 else 0) = n)"
| "py_eq_int _ n = False"

text \<open>Rounding half to even, as \<^verbatim>\<open>round(x, k)\<close> and the \<^verbatim>\<open>:.kf\<close> format do.\<close>

definition round_half_even :: "rat \<Rightarrow> int" where
  "round_half_even y =
     (let f = \<lfloor>y\<rfloor>; d = y - of_int f
      in if d < 1 / 2 then f
         else if 1 / 2 < d then f + 1
         else if even f then f else f + 1)"

definition py_round :: "nat \<Rightarrow> rat \<Rightarrow> rat" where
  "py_round k x = of_int (round_half_even (x * 10 ^ k)) / 10 ^ k"

definition digit_char :: "nat \<Rightarrow> char" where
  "digit_char d = char_of (48 + d)"

fun str_of_nat :: "nat \<Rightarrow> string" where
  "str_of_nat n =
     (if n < 10 then [digit_char n]
      else str_of_nat (n div 10) @ [digit_char (n mod 10)])"

declare str_of_nat.simps [simp del]

definition str_of_int :: "int \<Rightarrow> string" where
  "str_of_int i = (if i < 0 then CHR ''-'' # str_of_nat (nat (- i)) else str_of_nat (nat i))"

text \<open>The format \<^verbatim>\<open>f"{x:.kf}"\<close> for \<open>k > 0\<close>.\<close>

definition fmt_fixed :: "nat \<Rightarrow> rat \<Rightarrow> string" where
  "fmt_fixed k x =
     (let n = nat (round_half_even (\<bar>x\<bar> * 10 ^ k));
          ip = n div 10 ^ k;
          fp = str_of_nat (n mod 10 ^ k)
      in (if x < 0 then ''-'' else '''') @ str_of_nat ip @ ''.''
           @ replicate (k - length fp) CHR ''0'' @ fp)"

text \<open>\<^verbatim>\<open>sep.join(xs)\<close>.\<close>

fun join :: "string \<Rightarrow> string list \<Rightarrow> string" where
  "join sep [] = []"
| "join sep [x] = x"
| "join sep (x # y # ys) = x @ sep @ join sep (y # ys)"

text \<open>\<^verbatim>\<open>s in t\<close> on strings.\<close>

fun starts_with :: "string \<Rightarrow> string \<Rightarrow> bool" where
  "starts_with [] t = True"
| "starts_with (c # s) [] = False"
| "starts_with (c # s) (d # t) = (c = d \<and> starts_with s t)"

fun contains :: "string \<Rightarrow> string \<Rightarrow> bool" where
  "contains s [] = (s = [])"
| "contains s (d # t) = (starts_with s (d # t) \<or> contains s t)"

text \<open>
  \<^verbatim>\<open>clause.split(' ')[0]\<close> and \<^verbatim>\<open>clause.split(' ', 1)[1]\<close> when the clause holds a
  space: the text before and after the first space.
\<close>

definition before_space :: "string \<Rightarrow> string" where
  "before_space s = takeWhile (\<lambda>c. c \<noteq> CHR '' '') s"

definition after_space :: "string \<Rightarrow> string" where
  "after_space s = tl (dropWhile (\<lambda>c. c \<noteq> CHR '' '') s)"


section \<open>Data model\<close>

text \<open>
  An assessment record as \<^verbatim>\<open>generate_compliance_report\<close> reads it. For the two
  fields that the code validates, \<open>None\<close> is an absent key. A level entry's
  description and a practice's text are read with the default \<^verbatim>\<open>''\<close>, so an absent
  one is the empty string.
\<close>

record practice =
  p_text :: string

record level_entry =
  ml_level :: "pyval option"
  ml_description :: string
  ml_practices :: "practice list"

record score_dict =
  sd_percentage :: "pyval option"
  sd_total :: "pyval option"
  sd_max :: "pyval option"

datatype calc_score =
    CSDict score_dict
  | CSOther  \<comment> \<open>any value that is not a dict\<close>

record assessment =
  clause :: string
  selected_maturity_level :: "pyval option"
  calculated_score :: "calc_score option"
  maturity_levels :: "level_entry list"

record roadmap_step =
  rs_step :: int
  rs_target_level :: int
  rs_title :: string
  rs_description :: string
  rs_practices :: "string list"
  rs_what_to_do :: string

record selection_item =
  us_title :: string
  us_content :: string
  us_level :: "int option"
  us_percentage :: "rat option"

text \<open>
  The last four fields of \<open>gap_details\<close> are keys that the recommendation loop
  reads with \<^verbatim>\<open>.get\<close>; the assessment loop never creates them.
\<close>

record gap_details =
  gd_user_selection :: "selection_item list"
  gd_missing_at_current_level :: "string list"
  gd_roadmap_to_level_4 :: "roadmap_step list"
  gd_current_level_description :: string
  gd_level_2_description :: string
  gd_level_3_description :: string
  gd_level_4_description :: string
  gd_required_actions :: "string list option"
  gd_practices_to_implement :: "string list option"
  gd_target_level_description :: "string option"
  gd_missing_elements :: "string list option"

record gap_info =
  gi_clause :: string
  gi_clause_name :: string
  gi_current_level :: rat
  gi_selected_level :: int
  gi_target_level :: int
  gi_gap_description :: string
  gi_score_percentage :: rat
  gi_total_score :: rat
  gi_max_score :: rat
  gi_impact :: string
  gi_priority :: string
  gi_gap_details :: gap_details

record recommendation =
  rec_clause :: string
  rec_clause_name :: string
  rec_current_level :: rat
  rec_selected_level :: rat
  rec_target_level :: int
  rec_action_items :: "string list"
  rec_timeline :: string
  rec_missing_elements :: "string list"
  rec_practices_to_implement :: "string list"
  rec_resources_required :: string

record phase =
  ph_title :: string
  ph_duration :: string
  ph_clauses :: "string list"
  ph_key_actions :: "string list"

record roadmap =
  phase_1 :: phase
  phase_2 :: phase
  phase_3 :: phase

record priority_matrix =
  quick_wins :: "string list"
  strategic_initiatives :: "string list"
  foundational_requirements :: "string list"

record report =
  executive_summary :: string
  overall_maturity_score :: string
  overall_maturity_numeric :: rat
  overall_percentage_score :: rat
  total_clauses :: nat
  assessed_clauses :: "gap_info list"
  critical_gaps :: "gap_info list"
  moderate_gaps :: "gap_info list"
  minor_gaps :: "gap_info list"
  recommendations :: "recommendation list"
  roadmap_to_level_4 :: roadmap
  priority_matrix :: priority_matrix

section \<open>The assessment loop, one record\<close>

text \<open>Lines 184-186: clause number and clause name.\<close>

definition clause_name_of :: "string \<Rightarrow> string" where
  "clause_name_of c = (if CHR '' '' \<in> set c then after_space c else c)"

definition clause_num_of :: "string \<Rightarrow> string" where
  "clause_num_of c = (if CHR '' '' \<in> set c then before_space c else c)"

text \<open>Lines 189-193: the selected level, 1 when absent, null or not a number.\<close>

definition current_level_of :: "assessment \<Rightarrow> int" where
  "current_level_of a =
     (case selected_maturity_level a of
        None \<Rightarrow> 1
      | Some PNone \<Rightarrow> 1
      | Some (PBool b) \<Rightarrow> (if b then 1 else 0)
      | Some (PInt n) \<Rightarrow> n
      | Some (PFloat q) \<Rightarrow> py_trunc q
      | Some _ \<Rightarrow> 1)"

text \<open>Line 256.\<close>

definition level_selected :: "assessment \<Rightarrow> bool" where
  "level_selected a =
     (case selected_maturity_level a of None \<Rightarrow> False | Some PNone \<Rightarrow> False | Some _ \<Rightarrow> True)"

text \<open>
  Lines 198-214: the three score fields. \<^verbatim>\<open>d.get(k, 0) or 0\<close> replaces an absent
  or falsy value by 0; one failing \<^verbatim>\<open>float(...)\<close> resets all three to 0.0.
\<close>

definition get_or_zero :: "pyval option \<Rightarrow> pyval" where
  "get_or_zero v = (case v of None \<Rightarrow> PInt 0 | Some x \<Rightarrow> if truthy x then x else PInt 0)"

definition to_float :: "(string \<Rightarrow> rat option) \<Rightarrow> pyval \<Rightarrow> rat option" where
  "to_float sf v = (if v \<noteq> PNone then py_float sf v else Some 0)"

definition score_fields :: "assessment \<Rightarrow> score_dict" where
  "score_fields a =
     (case calculated_score a of
        Some (CSDict d) \<Rightarrow> d
      | _ \<Rightarrow> \<lparr>sd_percentage = None, sd_total = None, sd_max = None\<rparr>)"

definition scores_of :: "(string \<Rightarrow> rat option) \<Rightarrow> assessment \<Rightarrow> rat \<times> rat \<times> rat" where
  "scores_of sf a =
     (let d = score_fields a;
          score_percentage = get_or_zero (sd_percentage d);
          total_score = get_or_zero (sd_total d);
          max_score = get_or_zero (sd_max d)
      in case to_float sf score_percentage of
           None \<Rightarrow> (0, 0, 0)
         | Some p \<Rightarrow>
             (case to_float sf total_score of
                None \<Rightarrow> (0, 0, 0)
              | Some t \<Rightarrow>
                  (case to_float sf max_score of
                     None \<Rightarrow> (0, 0, 0)
                   | Some m \<Rightarrow> (p, t, m))))"

definition score_percentage_of :: "(string \<Rightarrow> rat option) \<Rightarrow> assessment \<Rightarrow> rat" where
  "score_percentage_of sf a = fst (scores_of sf a)"

definition total_score_of :: "(string \<Rightarrow> rat option) \<Rightarrow> assessment \<Rightarrow> rat" where
  "total_score_of sf a = fst (snd (scores_of sf a))"

definition max_score_of :: "(string \<Rightarrow> rat option) \<Rightarrow> assessment \<Rightarrow> rat" where
  "max_score_of sf a = snd (snd (scores_of sf a))"

text \<open>Lines 218-224: the level adjusted by the practice score.\<close>

definition adjust_level :: "int \<Rightarrow> rat \<Rightarrow> rat" where
  "adjust_level current_level score_percentage =
     (if current_level > 1 \<and> score_percentage < 50 then max 1 (of_int current_level - 1 / 2)
      else if current_level > 1 \<and> score_percentage < 75 then of_int current_level - 1 / 4
      else of_int current_level)"

definition effective_level_of :: "(string \<Rightarrow> rat option) \<Rightarrow> assessment \<Rightarrow> rat" where
  "effective_level_of sf a = adjust_level (current_level_of a) (score_percentage_of sf a)"

text \<open>Line 235; the target level is the constant 4.\<close>

definition gap_of :: "(string \<Rightarrow> rat option) \<Rightarrow> assessment \<Rightarrow> rat" where
  "gap_of sf a = 4 - effective_level_of sf a"

text \<open>
  Lines 239-253: one pass over \<^verbatim>\<open>maturity_levels\<close> fills four variables; a later
  entry with the same level overwrites an earlier one.
\<close>

record level_data =
  current_level_data :: "level_entry option"
  level_2_data :: "level_entry option"
  level_3_data :: "level_entry option"
  level_4_data :: "level_entry option"

definition scan_level :: "int \<Rightarrow> level_data \<Rightarrow> level_entry \<Rightarrow> level_data" where
  "scan_level current_level ld ml =
     \<lparr>current_level_data =
        (if py_eq_int (ml_level ml) current_level then Some ml else current_level_data ld),
      level_2_data = (if py_eq_int (ml_level ml) 2 then Some ml else level_2_data ld),
      level_3_data = (if py_eq_int (ml_level ml) 3 then Some ml else level_3_data ld),
      level_4_data = (if py_eq_int (ml_level ml) 4 then Some ml else level_4_data ld)\<rparr>"

definition scan_levels :: "int \<Rightarrow> level_entry list \<Rightarrow> level_data" where
  "scan_levels current_level mls =
     foldl (scan_level current_level)
       \<lparr>current_level_data = None, level_2_data = None, level_3_data = None,
        level_4_data = None\<rparr> mls"

text \<open>Lines 264-290: what the user selected and how far the practices are completed.\<close>

definition user_selection_summary ::
  "bool \<Rightarrow> int \<Rightarrow> level_entry option \<Rightarrow> rat \<Rightarrow> rat \<Rightarrow> rat \<Rightarrow> selection_item list" where
  "user_selection_summary selected current_level cld score_percentage total_score max_score =
     [if \<not> selected then
        \<lparr>us_title = ''Your Selection'',
         us_content = ''No maturity level has been selected. Default status: Level 1.'',
         us_level = Some 1, us_percentage = None\<rparr>
      else
        \<lparr>us_title = ''Your Selection'',
         us_content = ''You selected Level '' @ str_of_int current_level @ ''. ''
           @ (case cld of Some ml \<Rightarrow> ml_description ml | None \<Rightarrow> []),
         us_level = Some current_level, us_percentage = None\<rparr>,
      if max_score > 0 \<and> score_percentage > 0 then
        \<lparr>us_title = ''Practice Completion'',
         us_content = ''You have completed '' @ fmt_fixed 1 score_percentage
           @ ''% of practices ('' @ fmt_fixed 2 total_score @ '' out of ''
           @ fmt_fixed 2 max_score @ '' points).'',
         us_level = None, us_percentage = Some score_percentage\<rparr>
      else
        \<lparr>us_title = ''Practice Completion'',
         us_content = ''Practices have not been assessed or completed yet.'',
         us_level = None, us_percentage = Some 0\<rparr>]"

text \<open>Lines 293-298.\<close>

definition missing_at_current_level :: "int \<Rightarrow> level_entry option \<Rightarrow> rat \<Rightarrow> string list" where
  "missing_at_current_level current_level cld score_percentage =
     (case cld of
        None \<Rightarrow> []
      | Some ml \<Rightarrow>
          if score_percentage < 100 \<and> ml_practices ml \<noteq> [] then
            [''Complete remaining practices for Level '' @ str_of_int current_level,
             ''Ensure all Level '' @ str_of_int current_level @ '' practices are implemented'']
          else [])"

text \<open>
  Lines 301-329: the steps to level 4. Each of the three tests reads the selected
  level \<^verbatim>\<open>current_level\<close>, and the step numbers are the conditional expressions
  of lines 313 and 323.
\<close>

definition practice_texts :: "nat \<Rightarrow> level_entry \<Rightarrow> string list" where
  "practice_texts n ml = map p_text (take n (ml_practices ml))"

definition step_2 :: "level_entry \<Rightarrow> roadmap_step" where
  "step_2 ml =
     \<lparr>rs_step = 1, rs_target_level = 2,
      rs_title = ''Step 1: Advance to Level 2'',
      rs_description = ml_description ml,
      rs_practices = practice_texts 4 ml,
      rs_what_to_do = ''Implement Level 2 practices: '' @ join '', '' (practice_texts 3 ml)\<rparr>"

definition step_3 :: "int \<Rightarrow> level_entry \<Rightarrow> roadmap_step" where
  "step_3 current_level ml =
     \<lparr>rs_step = (if current_level < 2 then 2 else 1), rs_target_level = 3,
      rs_title = ''Step '' @ (if current_level < 2 then ''2'' else ''1'')
        @ '': Advance to Level 3'',
      rs_description = ml_description ml,
      rs_practices = practice_texts 4 ml,
      rs_what_to_do = ''Implement Level 3 practices: '' @ join '', '' (practice_texts 3 ml)\<rparr>"

definition step_4_number :: "int \<Rightarrow> int" where
  "step_4_number current_level =
     (if current_level < 3 then 3 else (if current_level < 2 then 2 else 1))"

definition step_4 :: "int \<Rightarrow> level_entry \<Rightarrow> roadmap_step" where
  "step_4 current_level ml =
     \<lparr>rs_step = step_4_number current_level, rs_target_level = 4,
      rs_title = ''Step '' @ str_of_int (step_4_number current_level)
        @ '': Reach Level 4 (Target)'',
      rs_description = ml_description ml,
      rs_practices = practice_texts 4 ml,
      rs_what_to_do = ''Implement Level 4 practices: '' @ join '', '' (practice_texts 3 ml)\<rparr>"

definition build_roadmap :: "int \<Rightarrow> level_data \<Rightarrow> roadmap_step list" where
  "build_roadmap current_level ld =
     (case level_2_data ld of
        Some ml \<Rightarrow> if current_level < 2 then [step_2 ml] else []
      | None \<Rightarrow> [])
     @ (case level_3_data ld of
          Some ml \<Rightarrow> if current_level < 3 then [step_3 current_level ml] else []
        | None \<Rightarrow> [])
     @ (case level_4_data ld of
          Some ml \<Rightarrow> if current_level < 4 then [step_4 current_level ml] else []
        | None \<Rightarrow> [])"

definition roadmap_of :: "assessment \<Rightarrow> roadmap_step list" where
  "roadmap_of a =
     build_roadmap (current_level_of a) (scan_levels (current_level_of a) (maturity_levels a))"

text \<open>Lines 332-348.\<close>

definition gap_description :: "bool \<Rightarrow> int \<Rightarrow> level_entry option \<Rightarrow> rat \<Rightarrow> rat \<Rightarrow> string" where
  "gap_description selected current_level cld score_percentage max_score =
     join '' ''
       ((if selected then
           [''You selected Level '' @ str_of_int current_level @ ''.'']
           @ (case cld of
                Some ml \<Rightarrow> [''Current state: '' @ ml_description ml]
              | None \<Rightarrow> [])
         else [''No maturity level selected. Default: Level 1.''])
        @ (if max_score > 0 then
             (if score_percentage = 0 then [''No practices completed.'']
              else [''Practice completion: '' @ fmt_fixed 1 score_percentage @ ''%.''])
           else [''Practices not assessed.'']))"

definition description_of :: "level_entry option \<Rightarrow> string" where
  "description_of d = (case d of Some ml \<Rightarrow> ml_description ml | None \<Rightarrow> [])"

text \<open>Lines 374-375.\<close>

definition impact_of :: "rat \<Rightarrow> string" where
  "impact_of gap = (if gap \<ge> 5 / 2 then ''High'' else if gap \<ge> 3 / 2 then ''Medium'' else ''Low'')"

definition priority_of :: "rat \<Rightarrow> string" where
  "priority_of gap =
     (if gap \<ge> 5 / 2 then ''Critical'' else if gap \<ge> 3 / 2 then ''High''
      else if gap \<ge> 1 / 2 then ''Medium'' else ''Low'')"

text \<open>Lines 354-377: the entry that the loop stores for one record.\<close>

definition gap_info_of :: "(string \<Rightarrow> rat option) \<Rightarrow> assessment \<Rightarrow> gap_info" where
  "gap_info_of sf a =
     (let current_level = current_level_of a;
          score_percentage = score_percentage_of sf a;
          total_score = total_score_of sf a;
          max_score = max_score_of sf a;
          effective_level = adjust_level current_level score_percentage;
          gap = 4 - effective_level;
          ld = scan_levels current_level (maturity_levels a);
          cld = current_level_data ld;
          selected = level_selected a
      in \<lparr>gi_clause = clause_num_of (clause a),
          gi_clause_name = clause_name_of (clause a),
          gi_current_level = py_round 1 effective_level,
          gi_selected_level = current_level,
          gi_target_level = 4,
          gi_gap_description =
            gap_description selected current_level cld score_percentage max_score,
          gi_score_percentage = py_round 1 score_percentage,
          gi_total_score = py_round 2 total_score,
          gi_max_score = py_round 2 max_score,
          gi_impact = impact_of gap,
          gi_priority = priority_of gap,
          gi_gap_details =
            \<lparr>gd_user_selection =
               user_selection_summary selected current_level cld score_percentage
                 total_score max_score,
             gd_missing_at_current_level =
               missing_at_current_level current_level cld score_percentage,
             gd_roadmap_to_level_4 = build_roadmap current_level ld,
             gd_current_level_description = description_of cld,
             gd_level_2_description = description_of (level_2_data ld),
             gd_level_3_description = description_of (level_3_data ld),
             gd_level_4_description = description_of (level_4_data ld),
             gd_required_actions = None,
             gd_practices_to_implement = None,
             gd_target_level_description = None,
             gd_missing_elements = None\<rparr>\<rparr>)"

section \<open>The assessment loop\<close>

text \<open>The variables that the loop of lines 183-386 updates.\<close>

record loop_state =
  total_weighted_score :: rat
  total_max_score :: rat
  total_level_score :: rat
  clause_count :: nat
  st_critical :: "gap_info list"
  st_moderate :: "gap_info list"
  st_minor :: "gap_info list"
  st_assessed :: "gap_info list"

definition init_state :: loop_state where
  "init_state =
     \<lparr>total_weighted_score = 0, total_max_score = 0, total_level_score = 0,
      clause_count = 0, st_critical = [], st_moderate = [], st_minor = [],
      st_assessed = []\<rparr>"

definition loop_step :: "(string \<Rightarrow> rat option) \<Rightarrow> loop_state \<Rightarrow> assessment \<Rightarrow> loop_state" where
  "loop_step sf st a =
     (let total_score = total_score_of sf a;
          max_score = max_score_of sf a;
          effective_level = effective_level_of sf a;
          gap = 4 - effective_level;
          gi = gap_info_of sf a
      in \<lparr>total_weighted_score =
            (if max_score > 0 then total_weighted_score st + total_score
             else total_weighted_score st),
          total_max_score =
            (if max_score > 0 then total_max_score st + max_score else total_max_score st),
          total_level_score = total_level_score st + effective_level,
          clause_count = clause_count st + 1,
          st_critical = (if gap \<ge> 5 / 2 then st_critical st @ [gi] else st_critical st),
          st_moderate =
            (if gap \<ge> 5 / 2 then st_moderate st
             else if gap \<ge> 3 / 2 then st_moderate st @ [gi] else st_moderate st),
          st_minor =
            (if gap \<ge> 5 / 2 then st_minor st
             else if gap \<ge> 3 / 2 then st_minor st else st_minor st @ [gi]),
          st_assessed = st_assessed st @ [gi]\<rparr>)"

definition run_loop :: "(string \<Rightarrow> rat option) \<Rightarrow> assessment list \<Rightarrow> loop_state" where
  "run_loop sf assessments = foldl (loop_step sf) init_state assessments"

section \<open>Aggregate scores, recommendations and the report\<close>

text \<open>
  Lines 389-401: the average level, the weighted percentage, the combined score
  and the maturity label, with the values that the code assigns when no clause
  was counted.
\<close>

definition avg_level_of :: "loop_state \<Rightarrow> rat" where
  "avg_level_of st = total_level_score st / of_nat (clause_count st)"

definition overall_percentage_of :: "loop_state \<Rightarrow> rat" where
  "overall_percentage_of st =
     (if total_max_score st > 0 then total_weighted_score st / total_max_score st * 100 else 0)"

definition combined_score_of :: "loop_state \<Rightarrow> rat" where
  "combined_score_of st =
     (avg_level_of st / 4 * 100 * (6 / 10)) + (overall_percentage_of st * (4 / 10))"

definition overall_maturity_of :: "loop_state \<Rightarrow> string" where
  "overall_maturity_of st =
     (if clause_count st > 0 then ''Level '' @ fmt_fixed 1 (avg_level_of st) else ''Level 1.0'')"

definition overall_maturity_numeric_of :: "loop_state \<Rightarrow> rat" where
  "overall_maturity_numeric_of st = (if clause_count st > 0 then avg_level_of st else 1)"

definition overall_percentage_score_of :: "loop_state \<Rightarrow> rat" where
  "overall_percentage_score_of st =
     (if clause_count st > 0 then py_round 1 (combined_score_of st) else 0)"

text \<open>
  Lines 405-475: one recommendation for one gap entry. The UTF-8 bytes of the
  bullet character stand for it.
\<close>

definition bullet :: string where
  "bullet = [char_of (226 :: nat), char_of (128 :: nat), char_of (162 :: nat)]"

definition nonempty :: "'a list option \<Rightarrow> bool" where
  "nonempty v = (case v of Some (x # xs) \<Rightarrow> True | _ \<Rightarrow> False)"

definition list_or_empty :: "'a list option \<Rightarrow> 'a list" where
  "list_or_empty v = (case v of Some xs \<Rightarrow> xs | None \<Rightarrow> [])"

definition timeline_of :: "rat \<Rightarrow> string" where
  "timeline_of gap_size =
     (if gap_size \<ge> 5 / 2 then ''6-12 months''
      else if gap_size \<ge> 3 / 2 then ''3-6 months''
      else ''1-3 months'')"

definition gap_size_of :: "gap_info \<Rightarrow> rat" where
  "gap_size_of g = of_int (gi_target_level g) - gi_current_level g"

definition specific_actions :: "gap_info \<Rightarrow> string list" where
  "specific_actions g =
     (let selected = (of_int (gi_selected_level g) :: rat);
          gd = gi_gap_details g
      in (if selected < 2 then
            [''Immediate: Select and implement Level 2 maturity for '' @ gi_clause_name g]
            @ (if nonempty (gd_required_actions gd) then
                 map (\<lambda>action. ''  '' @ bullet @ '' '' @ action)
                   (filter (\<lambda>action. contains ''Level 2'' action \<or> contains ''Level 1'' action)
                      (list_or_empty (gd_required_actions gd)))
               else [])
          else [])
         @ (if selected < 3 then
              [''Short-term: Advance to Level 3 by implementing standardized frameworks'']
              @ (if nonempty (gd_practices_to_implement gd) then
                   [''  '' @ bullet @ '' Key practices to implement: ''
                      @ join '', '' (take 2 (list_or_empty (gd_practices_to_implement gd)))]
                 else [])
            else [])
         @ (if selected < 4 then
              [''Long-term: Achieve Level 4 maturity through automation and optimization'']
              @ (case gd_target_level_description gd of
                   Some (c # d) \<Rightarrow> [''  '' @ bullet @ '' Target state: '' @ (c # d)]
                 | _ \<Rightarrow> [])
            else [])
         @ (if nonempty (gd_missing_elements gd) then
              [''Address missing elements: ''
                 @ join '', '' (take 3 (list_or_empty (gd_missing_elements gd)))]
            else []))"

definition generic_actions :: "gap_info \<Rightarrow> string list" where
  "generic_actions g =
     (let current = gi_current_level g
      in (if current < 2 then
            [''Establish basic documentation and processes for '' @ gi_clause_name g
               @ '' to reach Level 2.'']
          else [])
         @ (if current < 3 then
              [''Develop standardized frameworks and integrate '' @ gi_clause_name g
                 @ '' into planning processes to reach Level 3.'']
            else [])
         @ (if current < 4 then
              [''Implement automation and continuous improvement for '' @ gi_clause_name g
                 @ '' to reach Level 4.'']
            else []))"

definition action_items_of :: "gap_info \<Rightarrow> string list" where
  "action_items_of g =
     (let action_items = specific_actions g
      in if action_items = [] then generic_actions g else action_items)"

definition recommendation_of :: "gap_info \<Rightarrow> recommendation" where
  "recommendation_of g =
     \<lparr>rec_clause = gi_clause g,
      rec_clause_name = gi_clause_name g,
      rec_current_level = gi_current_level g,
      rec_selected_level = of_int (gi_selected_level g),
      rec_target_level = gi_target_level g,
      rec_action_items = action_items_of g,
      rec_timeline = timeline_of (gap_size_of g),
      rec_missing_elements = list_or_empty (gd_missing_elements (gi_gap_details g)),
      rec_practices_to_implement =
        list_or_empty (gd_practices_to_implement (gi_gap_details g)),
      rec_resources_required =
        ''Training, documentation tools, process improvement resources, ''
          @ ''and management commitment for '' @ gi_clause_name g @ ''.''\<rparr>"

text \<open>Lines 478-516: the three phases and the priority matrix.\<close>

definition roadmap_phases :: "loop_state \<Rightarrow> roadmap" where
  "roadmap_phases st =
     \<lparr>phase_1 =
        \<lparr>ph_title = ''Foundation (Level 1 to Level 2)'',
         ph_duration = ''3-6 months'',
         ph_clauses = map gi_clause (take 5 (st_critical st) @ take 3 (st_moderate st)),
         ph_key_actions =
           [''Document basic processes and procedures'',
            ''Establish foundational documentation'',
            ''Identify key stakeholders and requirements'']\<rparr>,
      phase_2 =
        \<lparr>ph_title = ''Standardization (Level 2 to Level 3)'',
         ph_duration = ''6-9 months'',
         ph_clauses = map gi_clause (st_critical st @ st_moderate st),
         ph_key_actions =
           [''Develop standardized frameworks'',
            ''Integrate processes into strategic planning'',
            ''Establish regular review processes'']\<rparr>,
      phase_3 =
        \<lparr>ph_title = ''Optimization (Level 3 to Level 4)'',
         ph_duration = ''6-12 months'',
         ph_clauses = map gi_clause (st_critical st @ st_moderate st @ st_minor st),
         ph_key_actions =
           [''Implement automation and monitoring systems'',
            ''Use data-driven decision making'',
            ''Align all processes with strategic objectives'']\<rparr>\<rparr>"

definition clause_label :: "gap_info \<Rightarrow> string" where
  "clause_label g = gi_clause g @ '' - '' @ gi_clause_name g"

definition priority_matrix_of :: "loop_state \<Rightarrow> priority_matrix" where
  "priority_matrix_of st =
     \<lparr>quick_wins = map clause_label (take 5 (st_minor st)),
      strategic_initiatives = map clause_label (take 5 (st_critical st)),
      foundational_requirements = map clause_label (take 5 (st_moderate st))\<rparr>"

text \<open>
  Lines 526-531: the executive summary (the string built at lines 519-520 is
  overwritten before it is used).
\<close>

definition executive_summary_of :: "loop_state \<Rightarrow> string" where
  "executive_summary_of st =
     ''Based on your assessment selections, the organization is currently at ''
     @ overall_maturity_of st @ '' maturity level ''
     @ ''with an overall compliance score of ''
     @ fmt_fixed 1 (overall_percentage_score_of st) @ ''%. ''
     @ ''Out of '' @ str_of_nat (clause_count st) @ '' clauses assessed, ''
     @ str_of_nat (length (st_critical st)) @ '' require critical attention, ''
     @ str_of_nat (length (st_moderate st)) @ '' have moderate gaps, and ''
     @ str_of_nat (length (st_minor st)) @ '' have minor gaps. ''
     @ (if st_critical st \<noteq> [] then
          ''Priority focus areas include ''
          @ join '', '' (map clause_label (take 3 (st_critical st))) @ ''.''
        else [])"

text \<open>Lines 533-548: the report assembled from the loop's final state.\<close>

definition build_report :: "loop_state \<Rightarrow> report" where
  "build_report st =
     \<lparr>executive_summary = executive_summary_of st,
      overall_maturity_score = overall_maturity_of st,
      overall_maturity_numeric = py_round 2 (overall_maturity_numeric_of st),
      overall_percentage_score = overall_percentage_score_of st,
      total_clauses = clause_count st,
      assessed_clauses = st_assessed st,
      critical_gaps = st_critical st,
      moderate_gaps = st_moderate st,
      minor_gaps = st_minor st,
      recommendations =
        map recommendation_of (st_critical st @ st_moderate st @ st_minor st),
      roadmap_to_level_4 = roadmap_phases st,
      priority_matrix = priority_matrix_of st\<rparr>"

text \<open>
  Lines 168-171 and 550: an empty list gives \<^verbatim>\<open>None\<close>, anything else a report.
\<close>

definition generate_compliance_report ::
  "(string \<Rightarrow> rat option) \<Rightarrow> assessment list \<Rightarrow> report option" where
  "generate_compliance_report sf assessments =
     (if assessments = [] then None else Some (build_report (run_loop sf assessments)))"

section \<open>Notions used to state the properties\<close>


text \<open>The \<^verbatim>\<open>maturity_levels\<close> of a record hold an entry for level \<open>t\<close>.\<close>

definition has_level :: "level_entry list \<Rightarrow> int \<Rightarrow> bool" where
  "has_level mls t = list_ex (\<lambda>ml. py_eq_int (ml_level ml) t) mls"










text \<open>The three gap classes as predicates on a record.\<close>

definition is_critical :: "(string \<Rightarrow> rat option) \<Rightarrow> assessment \<Rightarrow> bool" where
  "is_critical sf a = (gap_of sf a \<ge> 5 / 2)"

definition is_moderate :: "(string \<Rightarrow> rat option) \<Rightarrow> assessment \<Rightarrow> bool" where
  "is_moderate sf a = (3 / 2 \<le> gap_of sf a \<and> gap_of sf a < 5 / 2)"

definition is_minor :: "(string \<Rightarrow> rat option) \<Rightarrow> assessment \<Rightarrow> bool" where
  "is_minor sf a = (gap_of sf a < 3 / 2)"

section \<open>Example records\<close>

text \<open>
  No field of the examples is a string, so the parser of strings plays no role in
  them; this one rejects every string.
\<close>

definition reject_strings :: "string \<Rightarrow> rat option" where
  "reject_strings s = None"

definition example_levels :: "level_entry list" where
  "example_levels =
     [\<lparr>ml_level = Some (PInt 1), ml_description = ''Ad hoc'',
       ml_practices = [\<lparr>p_text = ''Informal notes''\<rparr>]\<rparr>,
      \<lparr>ml_level = Some (PInt 2), ml_description = ''Documented'',
       ml_practices = [\<lparr>p_text = ''Written procedure''\<rparr>, \<lparr>p_text = ''Named owner''\<rparr>]\<rparr>,
      \<lparr>ml_level = Some (PInt 3), ml_description = ''Standardized'',
       ml_practices = [\<lparr>p_text = ''Common framework''\<rparr>]\<rparr>,
      \<lparr>ml_level = Some (PInt 4), ml_description = ''Optimized'',
       ml_practices = [\<lparr>p_text = ''Automated monitoring''\<rparr>]\<rparr>]"

definition example_score :: "rat \<Rightarrow> rat \<Rightarrow> rat \<Rightarrow> calc_score option" where
  "example_score t m p =
     Some (CSDict \<lparr>sd_percentage = Some (PFloat p), sd_total = Some (PFloat t),
                  sd_max = Some (PFloat m)\<rparr>)"

definition ex_unselected :: assessment where
  "ex_unselected =
     \<lparr>clause = ''4.1 Context'', selected_maturity_level = None,
      calculated_score = None, maturity_levels = example_levels\<rparr>"

definition ex_level2_low :: assessment where
  "ex_level2_low =
     \<lparr>clause = ''7.3 Design and Development'', selected_maturity_level = Some (PInt 2),
      calculated_score = example_score 3 10 30, maturity_levels = example_levels\<rparr>"

definition ex_level3_high :: assessment where
  "ex_level3_high =
     \<lparr>clause = ''8.4 Purchasing'', selected_maturity_level = Some (PInt 3),
      calculated_score = example_score 8 10 80, maturity_levels = example_levels\<rparr>"

definition ex_level3_low :: assessment where
  "ex_level3_low =
     \<lparr>clause = ''9.1 Monitoring'', selected_maturity_level = Some (PInt 3),
      calculated_score = example_score 4 10 40, maturity_levels = example_levels\<rparr>"

definition ex_level4_full :: assessment where
  "ex_level4_full =
     \<lparr>clause = ''9.2 Internal Audit'', selected_maturity_level = Some (PInt 4),
      calculated_score = example_score 10 10 100, maturity_levels = example_levels\<rparr>"

definition ex_records :: "assessment list" where
  "ex_records = [ex_level3_high, ex_unselected, ex_level3_low, ex_level2_low, ex_level4_full]"

section \<open>The loop as sums and filters\<close>

lemma loop_step_critical:
  "st_critical (loop_step sf st a) =
     st_critical st @ (if is_critical sf a then [gap_info_of sf a] else [])"
  by (simp add: loop_step_def Let_def is_critical_def gap_of_def)
lemma loop_step_moderate:
  "st_moderate (loop_step sf st a) =
     st_moderate st @ (if is_moderate sf a then [gap_info_of sf a] else [])"
  by (simp add: loop_step_def Let_def is_moderate_def gap_of_def not_le)
lemma loop_step_minor:
  "st_minor (loop_step sf st a) =
     st_minor st @ (if is_minor sf a then [gap_info_of sf a] else [])"
  by (auto simp add: loop_step_def Let_def is_minor_def gap_of_def not_le)
lemma loop_step_assessed:
  "st_assessed (loop_step sf st a) = st_assessed st @ [gap_info_of sf a]"
  by (simp add: loop_step_def Let_def)

lemma foldl_critical:
  "st_critical (foldl (loop_step sf) st rs) =
     st_critical st @ map (gap_info_of sf) (filter (is_critical sf) rs)"
  by (induction rs arbitrary: st) (simp_all add: loop_step_critical)
lemma foldl_moderate:
  "st_moderate (foldl (loop_step sf) st rs) =
     st_moderate st @ map (gap_info_of sf) (filter (is_moderate sf) rs)"
  by (induction rs arbitrary: st) (simp_all add: loop_step_moderate)
lemma foldl_minor:
  "st_minor (foldl (loop_step sf) st rs) =
     st_minor st @ map (gap_info_of sf) (filter (is_minor sf) rs)"
  by (induction rs arbitrary: st) (simp_all add: loop_step_minor)
lemma foldl_assessed:
  "st_assessed (foldl (loop_step sf) st rs) = st_assessed st @ map (gap_info_of sf) rs"
  by (induction rs arbitrary: st) (simp_all add: loop_step_assessed)

lemma run_loop_critical:
  "st_critical (run_loop sf rs) = map (gap_info_of sf) (filter (is_critical sf) rs)"
  by (simp add: run_loop_def foldl_critical init_state_def)
lemma run_loop_moderate:
  "st_moderate (run_loop sf rs) = map (gap_info_of sf) (filter (is_moderate sf) rs)"
  by (simp add: run_loop_def foldl_moderate init_state_def)
lemma run_loop_minor:
  "st_minor (run_loop sf rs) = map (gap_info_of sf) (filter (is_minor sf) rs)"
  by (simp add: run_loop_def foldl_minor init_state_def)
lemma run_loop_assessed:
  "st_assessed (run_loop sf rs) = map (gap_info_of sf) rs"
  by (simp add: run_loop_def foldl_assessed init_state_def)









section \<open>The empty input\<close>

lemma generate_nonempty:
  "rs \<noteq> [] \<Longrightarrow> generate_compliance_report sf rs = Some (build_report (run_loop sf rs))"
  by (simp add: generate_compliance_report_def)

text \<open>
  Claim C1, as the code has it: for an empty list of records
  \<^verbatim>\<open>generate_compliance_report\<close> returns \<^verbatim>\<open>None\<close>, not a report, and does not
  fail. The values "Level 1.0" and 0 are what the aggregation of lines 398-401
  assigns when no clause was counted, which is the state before the loop.
\<close>

theorem C1_empty_returns_none:
  "generate_compliance_report sf [] = None
   \<and> overall_maturity_of init_state = ''Level 1.0''
   \<and> overall_percentage_score_of init_state = 0
   \<and> clause_count init_state = 0"
  by (simp add: generate_compliance_report_def overall_maturity_of_def
      overall_percentage_score_of_def init_state_def)

text \<open>
  The claim as written asks for a report with \<^verbatim>\<open>overall_maturity_score\<close>
  "Level 1.0" on the empty list; there is no report to read it from.
\<close>

theorem C1_counterexample:
  "generate_compliance_report reject_strings [] = None
   \<and> map_option overall_maturity_score (generate_compliance_report reject_strings [])
       \<noteq> Some ''Level 1.0''"
  by (simp add: generate_compliance_report_def)

section \<open>The roadmap of one record\<close>

lemma scan_levels_snoc:
  "scan_levels c (mls @ [ml]) = scan_level c (scan_levels c mls) ml"
  by (simp add: scan_levels_def)

lemma scan_levels_2: "(level_2_data (scan_levels c mls) \<noteq> None) = has_level mls 2"
  by (induction mls rule: rev_induct)
    (auto simp add: scan_levels_snoc scan_level_def has_level_def scan_levels_def)

lemma scan_levels_3: "(level_3_data (scan_levels c mls) \<noteq> None) = has_level mls 3"
  by (induction mls rule: rev_induct)
    (auto simp add: scan_levels_snoc scan_level_def has_level_def scan_levels_def)

lemma scan_levels_4: "(level_4_data (scan_levels c mls) \<noteq> None) = has_level mls 4"
  by (induction mls rule: rev_induct)
    (auto simp add: scan_levels_snoc scan_level_def has_level_def scan_levels_def)

lemma build_roadmap_targets:
  "map rs_target_level (build_roadmap c ld) =
     filter (\<lambda>t. c < t \<and> (if t = 2 then level_2_data ld \<noteq> None
                           else if t = 3 then level_3_data ld \<noteq> None
                           else level_4_data ld \<noteq> None)) [2, 3, 4]"
  by (auto simp add: build_roadmap_def step_2_def step_3_def step_4_def split: option.splits)

text \<open>
  Claim C2, as the code has it: the roadmap of a record holds a step for the
  target level \<open>t\<close> among 2, 3, 4 exactly when the selected level
  \<^verbatim>\<open>current_level\<close> (not the effective level) is below \<open>t\<close> and the record has a
  \<^verbatim>\<open>maturity_levels\<close> entry for \<open>t\<close>, in increasing order of the targets. When the
  selected level is not 2 and every target above it has an entry, the steps are
  numbered 1, 2, ... in that order.
\<close>

theorem C2_roadmap_steps:
  "map rs_target_level (roadmap_of a) =
     filter (\<lambda>t. current_level_of a < t \<and> has_level (maturity_levels a) t) [2, 3, 4]
   \<and> (current_level_of a \<noteq> 2
        \<and> (\<forall>t \<in> {2, 3, 4}. current_level_of a < t \<longrightarrow> has_level (maturity_levels a) t)
      \<longrightarrow> map rs_step (roadmap_of a) = map int [1..<Suc (length (roadmap_of a))])"
proof
  show "map rs_target_level (roadmap_of a) =
     filter (\<lambda>t. current_level_of a < t \<and> has_level (maturity_levels a) t) [2, 3, 4]"
    unfolding roadmap_of_def build_roadmap_targets
    by (simp add: scan_levels_2 [of "current_level_of a" "maturity_levels a", symmetric]
        scan_levels_3 [of "current_level_of a" "maturity_levels a", symmetric]
        scan_levels_4 [of "current_level_of a" "maturity_levels a", symmetric])
next
  let ?c = "current_level_of a"
  let ?ld = "scan_levels ?c (maturity_levels a)"
  show "?c \<noteq> 2 \<and> (\<forall>t \<in> {2, 3, 4}. ?c < t \<longrightarrow> has_level (maturity_levels a) t)
      \<longrightarrow> map rs_step (roadmap_of a) = map int [1..<Suc (length (roadmap_of a))]"
  proof
    assume h: "?c \<noteq> 2 \<and> (\<forall>t \<in> {2, 3, 4}. ?c < t \<longrightarrow> has_level (maturity_levels a) t)"
    consider (low) "?c < 2" | (three) "?c = 3" | (top) "4 \<le> ?c"
      using h by linarith
    then show "map rs_step (roadmap_of a) = map int [1..<Suc (length (roadmap_of a))]"
    proof cases
      case low
      then obtain m2 m3 m4 where "level_2_data ?ld = Some m2" "level_3_data ?ld = Some m3"
        "level_4_data ?ld = Some m4"
        using h scan_levels_2 [of ?c "maturity_levels a"] scan_levels_3 [of ?c "maturity_levels a"]
          scan_levels_4 [of ?c "maturity_levels a"] by auto
      then show ?thesis using low
        by (simp add: roadmap_of_def build_roadmap_def step_2_def step_3_def step_4_def
            step_4_number_def upt_rec)
    next
      case three
      then obtain m4 where "level_4_data ?ld = Some m4"
        using h scan_levels_4 [of ?c "maturity_levels a"] by auto
      then show ?thesis using three
        by (simp add: roadmap_of_def build_roadmap_def step_4_def step_4_number_def
            split: option.splits)
    next
      case top
      then show ?thesis
        by (simp add: roadmap_of_def build_roadmap_def split: option.splits)
    qed
  qed
qed

text \<open>
  A record with no selection (level 1) and entries for the levels 2, 3 and 4:
  steps to 2, 3, 4, numbered 1, 2, 3.
\<close>

theorem C2_roadmap_steps_witness:
  "current_level_of ex_unselected = 1
   \<and> has_level (maturity_levels ex_unselected) 2
   \<and> has_level (maturity_levels ex_unselected) 3
   \<and> has_level (maturity_levels ex_unselected) 4
   \<and> map rs_target_level (roadmap_of ex_unselected) = [2, 3, 4]
   \<and> map rs_step (roadmap_of ex_unselected) = [1, 2, 3]"
proof -
  have c: "current_level_of ex_unselected = 1" by code_simp
  have h2: "has_level (maturity_levels ex_unselected) 2" by code_simp
  have h3: "has_level (maturity_levels ex_unselected) 3" by code_simp
  have h4: "has_level (maturity_levels ex_unselected) 4" by code_simp
  have t: "map rs_target_level (roadmap_of ex_unselected) = [2, 3, 4]"
    using C2_roadmap_steps [of ex_unselected] c h2 h3 h4 by simp
  have "length (map rs_target_level (roadmap_of ex_unselected)) = 3"
    unfolding t by simp
  then have len: "length (roadmap_of ex_unselected) = 3" by simp
  have "map rs_step (roadmap_of ex_unselected)
      = map int [1..<Suc (length (roadmap_of ex_unselected))]"
    using C2_roadmap_steps [of ex_unselected] c h2 h3 h4 by simp
  then have "map rs_step (roadmap_of ex_unselected) = [1, 2, 3]"
    unfolding len by (simp add: upt_rec)
  then show ?thesis using c h2 h3 h4 t by simp
qed

text \<open>
  The claim as written fails on a record at effective level 1.5 (level 2 selected,
  30 percent of the practices): the step to level 2 is missing, and the two steps
  that remain carry the numbers 1 and 3.
\<close>

theorem C2_counterexample:
  "effective_level_of reject_strings ex_level2_low = 3 / 2
   \<and> map rs_target_level (roadmap_of ex_level2_low) = [3, 4]
   \<and> map rs_step (roadmap_of ex_level2_low) = [1, 3]
   \<and> map rs_target_level (roadmap_of ex_level2_low) \<noteq> [2, 3, 4]
   \<and> map rs_step (roadmap_of ex_level2_low) \<noteq> [1, 2, 3]"
  by code_simp

section \<open>Effective level and gap class of one record\<close>






text \<open>
  Claim C4: with \<open>gap = 4 - effective_level\<close>, the loop appends the record's
  entry to the critical gaps when \<open>gap \<ge> 2.5\<close>, to the moderate gaps when
  \<open>1.5 \<le> gap < 2.5\<close> and to the minor gaps otherwise, and to no other bucket;
  the entry's impact is "High" if \<open>gap \<ge> 2.5\<close>, "Medium" if \<open>gap \<ge> 1.5\<close>, else
  "Low"; its priority is "Critical", "High", "Medium", "Low" at the thresholds
  2.5, 1.5, 0.5.
\<close>

theorem C4_gap_classification:
  "(5 / 2 \<le> gap_of sf a
      \<longrightarrow> st_critical (loop_step sf st a) = st_critical st @ [gap_info_of sf a]
        \<and> st_moderate (loop_step sf st a) = st_moderate st
        \<and> st_minor (loop_step sf st a) = st_minor st)
   \<and> (3 / 2 \<le> gap_of sf a \<and> gap_of sf a < 5 / 2
      \<longrightarrow> st_critical (loop_step sf st a) = st_critical st
        \<and> st_moderate (loop_step sf st a) = st_moderate st @ [gap_info_of sf a]
        \<and> st_minor (loop_step sf st a) = st_minor st)
   \<and> (gap_of sf a < 3 / 2
      \<longrightarrow> st_critical (loop_step sf st a) = st_critical st
        \<and> st_moderate (loop_step sf st a) = st_moderate st
        \<and> st_minor (loop_step sf st a) = st_minor st @ [gap_info_of sf a])
   \<and> gi_impact (gap_info_of sf a) =
       (if 5 / 2 \<le> gap_of sf a then ''High''
        else if 3 / 2 \<le> gap_of sf a then ''Medium'' else ''Low'')
   \<and> gi_priority (gap_info_of sf a) =
       (if 5 / 2 \<le> gap_of sf a then ''Critical''
        else if 3 / 2 \<le> gap_of sf a then ''High''
        else if 1 / 2 \<le> gap_of sf a then ''Medium'' else ''Low'')"
proof -
  have i: "gi_impact (gap_info_of sf a) = impact_of (gap_of sf a)"
    by (simp add: gap_info_of_def gap_of_def effective_level_of_def Let_def)
  have p: "gi_priority (gap_info_of sf a) = priority_of (gap_of sf a)"
    by (simp add: gap_info_of_def gap_of_def effective_level_of_def Let_def)
  show ?thesis
    unfolding i p
    by (simp add: loop_step_critical loop_step_moderate loop_step_minor is_critical_def
        is_moderate_def is_minor_def impact_of_def priority_of_def)
qed

text \<open>
  Level 3 selected and 80 percent of the practices: gap 1, a minor gap of low
  impact and medium priority.
\<close>

theorem C4_gap_classification_witness:
  "gap_of reject_strings ex_level3_high < 3 / 2
   \<and> st_minor (loop_step reject_strings init_state ex_level3_high)
       = [gap_info_of reject_strings ex_level3_high]
   \<and> st_critical (loop_step reject_strings init_state ex_level3_high) = []
   \<and> st_moderate (loop_step reject_strings init_state ex_level3_high) = []
   \<and> gi_impact (gap_info_of reject_strings ex_level3_high) = ''Low''
   \<and> gi_priority (gap_info_of reject_strings ex_level3_high) = ''Medium''"
proof -
  have g: "gap_of reject_strings ex_level3_high = 1" by code_simp
  have s: "st_critical init_state = [] \<and> st_moderate init_state = [] \<and> st_minor init_state = []"
    by (simp add: init_state_def)
  show ?thesis
    using C4_gap_classification [of reject_strings ex_level3_high init_state] g s by simp
qed

section \<open>The aggregate scores\<close>



section \<open>The gap buckets\<close>

lemma gap_info_priority: "gi_priority (gap_info_of sf a) = priority_of (gap_of sf a)"
  by (simp add: gap_info_of_def gap_of_def effective_level_of_def Let_def)

lemma critical_priority:
  assumes "g \<in> set (map (gap_info_of sf) (filter (is_critical sf) rs))"
  shows "gi_priority g = ''Critical''"
proof -
  from assms obtain a where "g = gap_info_of sf a" and "is_critical sf a" by auto
  then show ?thesis by (simp add: gap_info_priority priority_of_def is_critical_def)
qed

lemma moderate_priority:
  assumes "g \<in> set (map (gap_info_of sf) (filter (is_moderate sf) rs))"
  shows "gi_priority g = ''High''"
proof -
  from assms obtain a where "g = gap_info_of sf a" and "is_moderate sf a" by auto
  then show ?thesis by (simp add: gap_info_priority priority_of_def is_moderate_def)
qed

lemma minor_priority:
  assumes "g \<in> set (map (gap_info_of sf) (filter (is_minor sf) rs))"
  shows "gi_priority g = ''Medium'' \<or> gi_priority g = ''Low''"
proof -
  from assms obtain a where "g = gap_info_of sf a" and "is_minor sf a" by auto
  then show ?thesis by (simp add: gap_info_priority priority_of_def is_minor_def)
qed

lemma mset_three_classes:
  "mset (map f (filter (is_critical sf) rs)) + mset (map f (filter (is_moderate sf) rs))
     + mset (map f (filter (is_minor sf) rs)) = mset (map f rs)"
  by (induction rs) (auto simp add: is_critical_def is_moderate_def is_minor_def)

lemma exactly_one_class:
  "(is_critical sf a \<and> \<not> is_moderate sf a \<and> \<not> is_minor sf a)
   \<or> (\<not> is_critical sf a \<and> is_moderate sf a \<and> \<not> is_minor sf a)
   \<or> (\<not> is_critical sf a \<and> \<not> is_moderate sf a \<and> is_minor sf a)"
  by (auto simp add: is_critical_def is_moderate_def is_minor_def)

lemma report_critical: "critical_gaps (build_report st) = st_critical st"
  by (simp add: build_report_def)

lemma report_moderate: "moderate_gaps (build_report st) = st_moderate st"
  by (simp add: build_report_def)

lemma report_minor: "minor_gaps (build_report st) = st_minor st"
  by (simp add: build_report_def)

lemma classes_disjoint:
  "set (map (gap_info_of sf) (filter (is_critical sf) rs))
     \<inter> set (map (gap_info_of sf) (filter (is_moderate sf) rs)) = {}"
  "set (map (gap_info_of sf) (filter (is_critical sf) rs))
     \<inter> set (map (gap_info_of sf) (filter (is_minor sf) rs)) = {}"
  "set (map (gap_info_of sf) (filter (is_moderate sf) rs))
     \<inter> set (map (gap_info_of sf) (filter (is_minor sf) rs)) = {}"
proof -
  have a: False
    if "g \<in> set (map (gap_info_of sf) (filter (is_critical sf) rs))"
      and "g \<in> set (map (gap_info_of sf) (filter (is_moderate sf) rs))" for g
    using critical_priority [OF that(1)] moderate_priority [OF that(2)] by simp
  have b: False
    if "g \<in> set (map (gap_info_of sf) (filter (is_critical sf) rs))"
      and "g \<in> set (map (gap_info_of sf) (filter (is_minor sf) rs))" for g
    using critical_priority [OF that(1)] minor_priority [OF that(2)] by auto
  have c: False
    if "g \<in> set (map (gap_info_of sf) (filter (is_moderate sf) rs))"
      and "g \<in> set (map (gap_info_of sf) (filter (is_minor sf) rs))" for g
    using moderate_priority [OF that(1)] minor_priority [OF that(2)] by auto
  show "set (map (gap_info_of sf) (filter (is_critical sf) rs))
     \<inter> set (map (gap_info_of sf) (filter (is_moderate sf) rs)) = {}"
    using a by blast
  show "set (map (gap_info_of sf) (filter (is_critical sf) rs))
     \<inter> set (map (gap_info_of sf) (filter (is_minor sf) rs)) = {}"
    using b by blast
  show "set (map (gap_info_of sf) (filter (is_moderate sf) rs))
     \<inter> set (map (gap_info_of sf) (filter (is_minor sf) rs)) = {}"
    using c by blast
qed

text \<open>
  Claim C6: the three gap buckets partition the records. Whenever there is a
  report (and there is none only for the empty list), the critical, moderate and
  minor gaps are the entries of the critical, moderate and minor records, in
  input order; together they hold the entry of every record once and nothing else,
  no entry lies in two buckets, and every record is in exactly one class.
\<close>

theorem C6_buckets_partition:
  "(case generate_compliance_report sf rs of
      None \<Rightarrow> rs = []
    | Some rep \<Rightarrow>
        critical_gaps rep = map (gap_info_of sf) (filter (is_critical sf) rs)
        \<and> moderate_gaps rep = map (gap_info_of sf) (filter (is_moderate sf) rs)
        \<and> minor_gaps rep = map (gap_info_of sf) (filter (is_minor sf) rs)
        \<and> mset (critical_gaps rep) + mset (moderate_gaps rep) + mset (minor_gaps rep)
            = mset (map (gap_info_of sf) rs)
        \<and> set (critical_gaps rep) \<inter> set (moderate_gaps rep) = {}
        \<and> set (critical_gaps rep) \<inter> set (minor_gaps rep) = {}
        \<and> set (moderate_gaps rep) \<inter> set (minor_gaps rep) = {})
   \<and> (is_critical sf a \<and> \<not> is_moderate sf a \<and> \<not> is_minor sf a
       \<or> \<not> is_critical sf a \<and> is_moderate sf a \<and> \<not> is_minor sf a
       \<or> \<not> is_critical sf a \<and> \<not> is_moderate sf a \<and> is_minor sf a)"
proof (cases "rs = []")
  case True
  then show ?thesis using exactly_one_class [of sf a]
    by (simp add: generate_compliance_report_def)
next
  case False
  let ?rep = "build_report (run_loop sf rs)"
  have g: "generate_compliance_report sf rs = Some ?rep"
    by (rule generate_nonempty [OF False])
  have c: "critical_gaps ?rep = map (gap_info_of sf) (filter (is_critical sf) rs)"
    by (simp only: report_critical run_loop_critical)
  have m: "moderate_gaps ?rep = map (gap_info_of sf) (filter (is_moderate sf) rs)"
    by (simp only: report_moderate run_loop_moderate)
  have n: "minor_gaps ?rep = map (gap_info_of sf) (filter (is_minor sf) rs)"
    by (simp only: report_minor run_loop_minor)
  show ?thesis
    unfolding g option.case c m n
    using classes_disjoint [of sf rs] mset_three_classes [of "gap_info_of sf" sf rs]
      exactly_one_class [of sf a]
    by blast
qed

text \<open>
  The five example records fall into two critical, one moderate and two minor gaps.
\<close>

theorem C6_buckets_partition_witness:
  "map_option critical_gaps (generate_compliance_report reject_strings ex_records)
     = Some (map (gap_info_of reject_strings) [ex_unselected, ex_level2_low])
   \<and> map_option moderate_gaps (generate_compliance_report reject_strings ex_records)
     = Some (map (gap_info_of reject_strings) [ex_level3_low])
   \<and> map_option minor_gaps (generate_compliance_report reject_strings ex_records)
     = Some (map (gap_info_of reject_strings) [ex_level3_high, ex_level4_full])
   \<and> is_critical reject_strings ex_unselected
   \<and> \<not> is_moderate reject_strings ex_unselected
   \<and> \<not> is_minor reject_strings ex_unselected"
proof -
  have ne: "ex_records \<noteq> []" by (simp add: ex_records_def)
  obtain rep where g: "generate_compliance_report reject_strings ex_records = Some rep"
    using generate_nonempty [OF ne] by blast
  have fc: "filter (is_critical reject_strings) ex_records = [ex_unselected, ex_level2_low]"
    by code_simp
  have fm: "filter (is_moderate reject_strings) ex_records = [ex_level3_low]"
    by code_simp
  have fn: "filter (is_minor reject_strings) ex_records = [ex_level3_high, ex_level4_full]"
    by code_simp
  have ic: "is_critical reject_strings ex_unselected" by code_simp
  have "critical_gaps rep = map (gap_info_of reject_strings) [ex_unselected, ex_level2_low]
      \<and> moderate_gaps rep = map (gap_info_of reject_strings) [ex_level3_low]
      \<and> minor_gaps rep = map (gap_info_of reject_strings) [ex_level3_high, ex_level4_full]
      \<and> \<not> is_moderate reject_strings ex_unselected \<and> \<not> is_minor reject_strings ex_unselected"
    using C6_buckets_partition [where sf = reject_strings and rs = ex_records
        and a = ex_unselected] ic
    unfolding g option.case fc fm fn by blast
  then show ?thesis unfolding g using ic by simp
qed

section \<open>The range of the overall score\<close>
















section \<open>The recommendations\<close>

lemma classes_length:
  "length (filter (is_critical sf) rs) + length (filter (is_moderate sf) rs)
     + length (filter (is_minor sf) rs) = length rs"
  by (induction rs) (auto simp add: is_critical_def is_moderate_def is_minor_def)

lemma report_recommendations:
  "recommendations (build_report st)
     = map recommendation_of (st_critical st @ st_moderate st @ st_minor st)"
  by (simp add: build_report_def)

lemma recommendation_timeline:
  "rec_timeline (recommendation_of g) = timeline_of (gap_size_of g)"
  by (simp add: recommendation_of_def)

text \<open>
  Claim C8: the recommendations are one entry per gap record, made from the
  critical gaps, then the moderate gaps, then the minor gaps, in that order, so
  there are as many as records; the timeline of an entry is "6-12 months" when its
  \<^verbatim>\<open>gap_size\<close> (4 minus the rounded effective level) is at least 2.5,
  "3-6 months" when it is at least 1.5 and below 2.5, and "1-3 months" otherwise.
\<close>

theorem C8_recommendations:
  assumes "rs \<noteq> []"
  shows "\<exists>rep. generate_compliance_report sf rs = Some rep
     \<and> recommendations rep
         = map recommendation_of (critical_gaps rep @ moderate_gaps rep @ minor_gaps rep)
     \<and> length (recommendations rep) = length rs
     \<and> (\<forall>g \<in> set (critical_gaps rep @ moderate_gaps rep @ minor_gaps rep).
           rec_timeline (recommendation_of g) =
             (if 5 / 2 \<le> gap_size_of g then ''6-12 months''
              else if 3 / 2 \<le> gap_size_of g then ''3-6 months''
              else ''1-3 months''))"
proof -
  let ?rep = "build_report (run_loop sf rs)"
  have g: "generate_compliance_report sf rs = Some ?rep"
    by (rule generate_nonempty [OF assms])
  have r: "recommendations ?rep
      = map recommendation_of (critical_gaps ?rep @ moderate_gaps ?rep @ minor_gaps ?rep)"
    by (simp only: report_recommendations report_critical report_moderate report_minor)
  have "length (recommendations ?rep)
      = length (filter (is_critical sf) rs) + length (filter (is_moderate sf) rs)
        + length (filter (is_minor sf) rs)"
    by (simp add: report_recommendations run_loop_critical run_loop_moderate run_loop_minor)
  then have l: "length (recommendations ?rep) = length rs"
    by (simp only: classes_length)
  have t: "rec_timeline (recommendation_of g) =
             (if 5 / 2 \<le> gap_size_of g then ''6-12 months''
              else if 3 / 2 \<le> gap_size_of g then ''3-6 months''
              else ''1-3 months'')" for g
    by (simp add: recommendation_timeline timeline_of_def)
  show ?thesis using g r l t by blast
qed

text \<open>
  The five example records: the recommendations follow the order critical,
  moderate, minor, not the input order.
\<close>

theorem C8_recommendations_witness:
  "ex_records \<noteq> []
   \<and> map_option (map rec_clause) (map_option recommendations
        (generate_compliance_report reject_strings ex_records))
       = Some [''4.1'', ''7.3'', ''9.1'', ''8.4'', ''9.2'']
   \<and> map_option (map rec_timeline) (map_option recommendations
        (generate_compliance_report reject_strings ex_records))
       = Some [''6-12 months'', ''6-12 months'', ''3-6 months'', ''1-3 months'', ''1-3 months'']
   \<and> map_option length (map_option recommendations
        (generate_compliance_report reject_strings ex_records)) = Some 5"
proof -
  have ne: "ex_records \<noteq> []" by (simp add: ex_records_def)
  obtain rep where g: "generate_compliance_report reject_strings ex_records = Some rep"
    and l: "length (recommendations rep) = length ex_records"
    using C8_recommendations [OF ne, of reject_strings] by blast
  have n: "length ex_records = 5" by (simp add: ex_records_def)
  have c: "map_option (map rec_clause) (map_option recommendations
        (generate_compliance_report reject_strings ex_records))
       = Some [''4.1'', ''7.3'', ''9.1'', ''8.4'', ''9.2'']"
    by code_simp
  have t: "map_option (map rec_timeline) (map_option recommendations
        (generate_compliance_report reject_strings ex_records))
       = Some [''6-12 months'', ''6-12 months'', ''3-6 months'', ''1-3 months'', ''1-3 months'']"
    by code_simp
  show ?thesis using ne c t l n unfolding g by simp
qed

section \<open>A record at the target level\<close>

lemma py_round_int: "py_round 1 (of_int n) = of_int n"
proof -
  have "(of_int n :: rat) * 10 = of_int (n * 10)" by simp
  then have "round_half_even (of_int n * 10) = n * 10"
    by (simp only: round_half_even_def Let_def floor_of_int) simp
  then show ?thesis by (simp add: py_round_def)
qed

lemma gap_info_selected: "gi_selected_level (gap_info_of sf a) = current_level_of a"
  by (simp add: gap_info_of_def Let_def)

lemma gap_info_current:
  "gi_current_level (gap_info_of sf a) = py_round 1 (effective_level_of sf a)"
  by (simp add: gap_info_of_def effective_level_of_def Let_def)

lemma gap_info_no_extra_fields:
  "gd_required_actions (gi_gap_details (gap_info_of sf a)) = None
   \<and> gd_practices_to_implement (gi_gap_details (gap_info_of sf a)) = None
   \<and> gd_target_level_description (gi_gap_details (gap_info_of sf a)) = None
   \<and> gd_missing_elements (gi_gap_details (gap_info_of sf a)) = None"
  by (simp add: gap_info_of_def Let_def)

lemma no_actions_at_4:
  assumes "gi_selected_level g = 4" and "gi_current_level g = 4"
    and "gd_required_actions (gi_gap_details g) = None"
    and "gd_practices_to_implement (gi_gap_details g) = None"
    and "gd_target_level_description (gi_gap_details g) = None"
    and "gd_missing_elements (gi_gap_details g) = None"
  shows "action_items_of g = []"
proof -
  have s: "specific_actions g = []"
    using assms by (simp add: specific_actions_def Let_def nonempty_def)
  have "generic_actions g = []"
    using assms(2) by (simp add: generic_actions_def Let_def)
  then show ?thesis using s by (simp add: action_items_of_def Let_def)
qed

lemma recommendation_action_items:
  "rec_action_items (recommendation_of g) = action_items_of g"
  by (simp add: recommendation_of_def)

text \<open>
  Claim C10: a record with level 4 selected and at least 75 percent of the
  practices has effective level 4 and gap 0; its gap details carry none of the keys
  \<^verbatim>\<open>required_actions\<close>, \<^verbatim>\<open>practices_to_implement\<close>, \<^verbatim>\<open>target_level_description\<close>,
  \<^verbatim>\<open>missing_elements\<close>; and the recommendation generated for it, which the report
  of any list holding the record contains, has an empty list of action items.
\<close>

theorem C10_no_actions_at_level_4:
  assumes "current_level_of a = 4" and "75 \<le> score_percentage_of sf a" and "a \<in> set rs"
  shows "effective_level_of sf a = 4 \<and> gap_of sf a = 0
     \<and> gd_required_actions (gi_gap_details (gap_info_of sf a)) = None
     \<and> gd_practices_to_implement (gi_gap_details (gap_info_of sf a)) = None
     \<and> gd_target_level_description (gi_gap_details (gap_info_of sf a)) = None
     \<and> gd_missing_elements (gi_gap_details (gap_info_of sf a)) = None
     \<and> rec_action_items (recommendation_of (gap_info_of sf a)) = []
     \<and> (\<exists>rep. generate_compliance_report sf rs = Some rep
          \<and> recommendation_of (gap_info_of sf a) \<in> set (recommendations rep))"
proof -
  have e: "effective_level_of sf a = 4"
    using assms(1,2) by (simp add: effective_level_of_def adjust_level_def)
  then have gp: "gap_of sf a = 0" by (simp add: gap_of_def)
  have "py_round 1 (of_int 4) = (of_int 4 :: rat)" by (rule py_round_int)
  then have c: "gi_current_level (gap_info_of sf a) = 4"
    using e by (simp add: gap_info_current)
  have s: "gi_selected_level (gap_info_of sf a) = 4"
    using assms(1) by (simp add: gap_info_selected)
  have x: "gd_required_actions (gi_gap_details (gap_info_of sf a)) = None
     \<and> gd_practices_to_implement (gi_gap_details (gap_info_of sf a)) = None
     \<and> gd_target_level_description (gi_gap_details (gap_info_of sf a)) = None
     \<and> gd_missing_elements (gi_gap_details (gap_info_of sf a)) = None"
    by (rule gap_info_no_extra_fields)
  have ai: "rec_action_items (recommendation_of (gap_info_of sf a)) = []"
    using no_actions_at_4 [OF s c] x by (simp add: recommendation_action_items)
  have ne: "rs \<noteq> []" using assms(3) by auto
  have "is_minor sf a" using gp by (simp add: is_minor_def)
  then have "gap_info_of sf a \<in> set (st_minor (run_loop sf rs))"
    using assms(3) by (simp add: run_loop_minor)
  then have "recommendation_of (gap_info_of sf a)
      \<in> set (recommendations (build_report (run_loop sf rs)))"
    by (simp add: report_recommendations)
  then have "\<exists>rep. generate_compliance_report sf rs = Some rep
          \<and> recommendation_of (gap_info_of sf a) \<in> set (recommendations rep)"
    using generate_nonempty [OF ne, of sf] by simp
  then show ?thesis using e gp x ai by blast
qed

text \<open>
  Level 4 selected and all practices completed.
\<close>

theorem C10_no_actions_at_level_4_witness:
  "current_level_of ex_level4_full = 4
   \<and> 75 \<le> score_percentage_of reject_strings ex_level4_full
   \<and> ex_level4_full \<in> set ex_records
   \<and> rec_action_items (recommendation_of (gap_info_of reject_strings ex_level4_full)) = []"
proof -
  have c: "current_level_of ex_level4_full = 4" by code_simp
  have p: "75 \<le> score_percentage_of reject_strings ex_level4_full" by code_simp
  have m: "ex_level4_full \<in> set ex_records" by (simp add: ex_records_def)
  show ?thesis
    using C10_no_actions_at_level_4 [OF c p m] c p m by blast
qed

end
